theory Spec2Isabelle
  imports Complex_Main "HOL-Library.Word"
begin

section \<open>GeographicTilingScheme (Source/Core/GeographicTilingScheme.js)\<close>

text \<open>
  A shallow embedding of the tiling scheme with its EPSG:4490 tile-matrix extension.

  JavaScript Numbers are modelled by \<^typ>\<open>real\<close>: the finite values, with exact arithmetic
  (no rounding to 53 bits, no overflow to Infinity). Tile counts, tile indices and levels
  are \<^typ>\<open>int\<close>. The two 32-bit operators of the source, \<open><<\<close> and \<open>| 0\<close>, are modelled
  on \<^typ>\<open>32 word\<close> and wrap as they do in JavaScript. Where the source throws, the
  model returns \<open>TypeError\<close>. Where the source divides by zero and hands a number that
  is Infinity or NaN to the caller, the model returns the marker \<open>NotFinite\<close>: it is not
  an exception of the source, it stands for a result outside the finite numbers.
\<close>

subsection \<open>Numbers\<close>

text \<open>\<open>Math.round\<close>: the nearest integer, a tie going towards \<open>+\<infinity>\<close>.\<close>

definition Math_round :: "real \<Rightarrow> int" where
  "Math_round v = \<lfloor>v + 1 / 2\<rfloor>"

text \<open>\<open>Math.floor\<close>.\<close>

definition Math_floor :: "real \<Rightarrow> int" where
  "Math_floor v = \<lfloor>v\<rfloor>"

text \<open>
  \<open>v | 0\<close> is ToInt32: drop the fraction (towards zero), reduce modulo \<open>2^32\<close>, read the
  32 bits as two's complement. ToInt32 maps NaN and both infinities to 0; a quotient by
  zero is \<open>0\<close> in HOL, which ToInt32 maps to 0 as well, so \<open>toInt32 (a / b)\<close> is
  \<open>(a / b) | 0\<close> also when \<open>b = 0\<close>.
\<close>

definition trunc_toward_zero :: "real \<Rightarrow> int" where
  "trunc_toward_zero v = (if 0 \<le> v then \<lfloor>v\<rfloor> else \<lceil>v\<rceil>)"

definition toInt32 :: "real \<Rightarrow> int" where
  "toInt32 v = sint (word_of_int (trunc_toward_zero v) :: 32 word)"

text \<open>
  \<open>a << n\<close> on integers: the left operand as 32 bits, the shift count \<open>n\<close> modulo 32,
  the result read as two's complement.
\<close>

definition shiftLeft :: "int \<Rightarrow> int \<Rightarrow> int" where
  "shiftLeft a n = sint (push_bit (nat (n mod 32)) (word_of_int a :: 32 word))"

text \<open>
  The rounding the specification names for the matrix tile counts, round half away
  from zero. This definition follows the specification's words, not the source.
\<close>

definition round_half_away_from_zero :: "real \<Rightarrow> int" where
  "round_half_away_from_zero v = (if 0 \<le> v then \<lfloor>v + 1 / 2\<rfloor> else \<lceil>v - 1 / 2\<rceil>)"

subsection \<open>Collaborators that are not part of the source file\<close>

text \<open>
  Modelled from the spec: \<open>Math.js\<close> (CesiumMath) is missing; the spec names
  "degree\<leftrightarrow>radian conversion primitives and a full-turn (2\<pi>) constant".
\<close>

definition TWO_PI :: real where
  "TWO_PI = 2 * pi"

definition toDegrees :: "real \<Rightarrow> real" where
  "toDegrees radians = radians * (180 / pi)"

definition toRadians :: "real \<Rightarrow> real" where
  "toRadians degrees = degrees * (pi / 180)"

text \<open>A cartographic position: longitude and latitude in radians.\<close>

record cartographic =
  longitude :: real
  latitude :: real

record rectangle =
  west :: real
  south :: real
  east :: real
  north :: real

text \<open>
  Modelled from the spec: \<open>Rectangle.js\<close> is missing; the spec names "a rectangle
  abstraction supporting construction from four bounds, a containment predicate, and
  width/height accessors", a rectangle whose east bound is less than its west bound
  being one that wraps around the antimeridian, "the maximum representable rectangle"
  (the full sphere, \<open>\<plusminus>180\<degree>\<close>, \<open>\<plusminus>90\<degree>\<close>) and the centre of a rectangle.
  Containment is the closed rectangle; a wrapping rectangle is read with its east bound
  and the negative longitudes one full turn further east.
\<close>

definition Rectangle_fromDegrees :: "real \<Rightarrow> real \<Rightarrow> real \<Rightarrow> real \<Rightarrow> rectangle" where
  "Rectangle_fromDegrees w s e n =
     \<lparr>west = toRadians w, south = toRadians s, east = toRadians e, north = toRadians n\<rparr>"

definition Rectangle_MAX_VALUE :: rectangle where
  "Rectangle_MAX_VALUE = \<lparr>west = - pi, south = - (pi / 2), east = pi, north = pi / 2\<rparr>"

definition Rectangle_width :: "rectangle \<Rightarrow> real" where
  "Rectangle_width r =
     (if east r < west r then east r + TWO_PI else east r) - west r"

definition Rectangle_height :: "rectangle \<Rightarrow> real" where
  "Rectangle_height r = north r - south r"

definition Rectangle_contains :: "rectangle \<Rightarrow> cartographic \<Rightarrow> bool" where
  "Rectangle_contains r p =
     (let east' = (if east r < west r then east r + TWO_PI else east r);
          longitude' = (if east r < west r \<and> longitude p < 0
                        then longitude p + TWO_PI else longitude p)
      in west r \<le> longitude' \<and> longitude' \<le> east'
         \<and> south r \<le> latitude p \<and> latitude p \<le> north r)"

definition Rectangle_center :: "rectangle \<Rightarrow> cartographic" where
  "Rectangle_center r =
     (let east' = (if east r < west r then east r + TWO_PI else east r);
          mid = (west r + east') / 2
      in \<lparr>longitude = (if pi < mid then mid - TWO_PI else mid),
          latitude = (south r + north r) / 2\<rparr>)"

text \<open>
  Modelled from the spec: \<open>Ellipsoid.js\<close> and \<open>GeographicProjection.js\<close> are missing; the
  spec names "an ellipsoid abstraction exposing at least named presets (WGS84-equivalent,
  CGCS2000-equivalent)" and "a map-projection abstraction constructible from an
  ellipsoid".
\<close>

datatype ellipsoid = WGS84 | CGCS2000 | Ellipsoid real real real

datatype projection = GeographicProjection ellipsoid

text \<open>
  Modelled from the spec: \<open>defaultValue.js\<close> is missing: the first argument when it is
  defined, else the second.
\<close>

definition defaultValue :: "'a option \<Rightarrow> 'a \<Rightarrow> 'a" where
  "defaultValue a b = (case a of None \<Rightarrow> b | Some v \<Rightarrow> v)"

subsection \<open>The configuration object and the tile-matrix descriptor\<close>

record spatialReference =
  wkid :: "int option"

record lod =
  level :: int
  resolution :: real

record origin_point =
  origin_x :: real
  origin_y :: real

record tileInfo =
  spatialReference :: "spatialReference option"
  lods :: "lod list"
  rows :: real
  cols :: real
  origin :: origin_point

record options =
  o_tileInfo :: "tileInfo option"
  o_ellipsoid :: "ellipsoid option"
  o_rectangle :: "rectangle option"
  o_numberOfLevelZeroTilesX :: "int option"
  o_numberOfLevelZeroTilesY :: "int option"

text \<open>The fields of the constructed object (\<open>this._tileInfo\<close>, \<open>this._ellipsoid\<close>, ...).\<close>

record scheme =
  s_tileInfo :: "tileInfo option"
  s_ellipsoid :: ellipsoid
  s_rectangle :: rectangle
  s_numberOfLevelZeroTilesX :: int
  s_numberOfLevelZeroTilesY :: int
  s_projection :: projection

definition EMPTY_OBJECT :: options where
  "EMPTY_OBJECT = \<lparr>o_tileInfo = None, o_ellipsoid = None, o_rectangle = None,
     o_numberOfLevelZeroTilesX = None, o_numberOfLevelZeroTilesY = None\<rparr>"

text \<open>The condition of the constructor's \<open>if\<close> (lines 30-35).\<close>

definition is_4490 :: "options \<Rightarrow> bool" where
  "is_4490 opts =
     (case o_tileInfo opts of
        None \<Rightarrow> False
      | Some ti \<Rightarrow>
          (case spatialReference ti of
             None \<Rightarrow> False
           | Some sr \<Rightarrow> (case wkid sr of None \<Rightarrow> False | Some k \<Rightarrow> k = 4490)))"

definition GeographicTilingScheme :: "options option \<Rightarrow> scheme" where
  "GeographicTilingScheme options0 =
     (let opts = defaultValue options0 EMPTY_OBJECT in
      if is_4490 opts then
        (let e = defaultValue (o_ellipsoid opts) CGCS2000 in
         \<lparr>s_tileInfo = o_tileInfo opts,
          s_ellipsoid = e,
          s_rectangle =
            defaultValue (o_rectangle opts) (Rectangle_fromDegrees (- 180) (- 90) 180 90),
          s_numberOfLevelZeroTilesX = defaultValue (o_numberOfLevelZeroTilesX opts) 4,
          s_numberOfLevelZeroTilesY = defaultValue (o_numberOfLevelZeroTilesY opts) 2,
          s_projection = GeographicProjection e\<rparr>)
      else
        (let e = defaultValue (o_ellipsoid opts) WGS84 in
         \<lparr>s_tileInfo = None,
          s_ellipsoid = e,
          s_rectangle = defaultValue (o_rectangle opts) Rectangle_MAX_VALUE,
          s_numberOfLevelZeroTilesX = defaultValue (o_numberOfLevelZeroTilesX opts) 2,
          s_numberOfLevelZeroTilesY = defaultValue (o_numberOfLevelZeroTilesY opts) 1,
          s_projection = GeographicProjection e\<rparr>))"

subsection \<open>Results\<close>

datatype failure = TypeError | NotFinite

text \<open>
  The level lookup that four functions repeat:
  \<open>currentMatrix = lods.filter(item => item.level === level)\<close> and
  \<open>currentResolution = currentMatrix[0].resolution\<close>. Reading \<open>.resolution\<close> of the
  \<open>undefined\<close> first element of an empty array throws a TypeError.
\<close>

definition currentMatrix :: "tileInfo \<Rightarrow> int \<Rightarrow> lod list" where
  "currentMatrix ti lvl = filter (\<lambda>item. level item = lvl) (lods ti)"

definition currentResolution :: "tileInfo \<Rightarrow> int \<Rightarrow> failure + real" where
  "currentResolution ti lvl =
     (case currentMatrix ti lvl of [] \<Rightarrow> Inl TypeError | m # _ \<Rightarrow> Inr (resolution m))"

subsection \<open>Level extent queries\<close>

definition getNumberOfXTilesAtLevel :: "scheme \<Rightarrow> int \<Rightarrow> failure + int" where
  "getNumberOfXTilesAtLevel S lvl =
     (case s_tileInfo S of
        None \<Rightarrow> Inr (shiftLeft (s_numberOfLevelZeroTilesX S) lvl)
      | Some ti \<Rightarrow>
          (case currentResolution ti lvl of
             Inl e \<Rightarrow> Inl e
           | Inr r \<Rightarrow>
               if rows ti * r = 0 then Inl NotFinite
               else Inr (Math_round (toDegrees TWO_PI / (rows ti * r)))))"

definition getNumberOfYTilesAtLevel :: "scheme \<Rightarrow> int \<Rightarrow> failure + int" where
  "getNumberOfYTilesAtLevel S lvl =
     (case s_tileInfo S of
        None \<Rightarrow> Inr (shiftLeft (s_numberOfLevelZeroTilesY S) lvl)
      | Some ti \<Rightarrow>
          (case currentResolution ti lvl of
             Inl e \<Rightarrow> Inl e
           | Inr r \<Rightarrow>
               if cols ti * r = 0 then Inl NotFinite
               else Inr (Math_round (toDegrees (TWO_PI / 2) / (cols ti * r)))))"

subsection \<open>Tile to rectangle\<close>

text \<open>
  The four bounds that \<open>tileXYToRectangle\<close> computes (lines 220-261). The optional
  \<open>result\<close> argument only decides which object receives these same four bounds
  (lines 263-271) and is left out.
\<close>

definition tileXYToRectangle :: "scheme \<Rightarrow> int \<Rightarrow> int \<Rightarrow> int \<Rightarrow> failure + rectangle" where
  "tileXYToRectangle S x y lvl =
     (let rect = s_rectangle S in
      case s_tileInfo S of
        Some ti \<Rightarrow>
          (case currentResolution ti lvl of
             Inl e \<Rightarrow> Inl e
           | Inr r \<Rightarrow>
               (let north0 = origin_y (origin ti) - of_int y * (cols ti * r);
                    west0 = origin_x (origin ti) + of_int x * (rows ti * r);
                    south0 = origin_y (origin ti) - (of_int y + 1) * (cols ti * r);
                    east0 = origin_x (origin ti) + (of_int x + 1) * (rows ti * r)
                in Inr \<lparr>west = toRadians west0, south = toRadians south0,
                        east = toRadians east0, north = toRadians north0\<rparr>))
      | None \<Rightarrow>
          (case getNumberOfXTilesAtLevel S lvl of
             Inl e \<Rightarrow> Inl e
           | Inr xTiles \<Rightarrow>
               (case getNumberOfYTilesAtLevel S lvl of
                  Inl e \<Rightarrow> Inl e
                | Inr yTiles \<Rightarrow>
                    if xTiles = 0 \<or> yTiles = 0 then Inl NotFinite
                    else
                      (let xTileWidth = Rectangle_width rect / of_int xTiles;
                           yTileHeight = Rectangle_height rect / of_int yTiles
                       in Inr \<lparr>west = of_int x * xTileWidth + west rect,
                               south = north rect - (of_int y + 1) * yTileHeight,
                               east = (of_int x + 1) * xTileWidth + west rect,
                               north = north rect - of_int y * yTileHeight\<rparr>))))"

subsection \<open>Position to tile\<close>

text \<open>
  Tile coordinate pairs are objects: the caller may pass one in to be filled. The heap
  of pairs is a list, an address is an index into it, and \<open>new Cartesian2\<close> appends.
  An address that a caller passes in is that of an existing pair, \<open>a < length h\<close>.
\<close>

record cartesian2 =
  c2_x :: int
  c2_y :: int

type_synonym heap = "cartesian2 list"

text \<open>
  The standard-mode coordinates (lines 318-338). With no tiles or an empty extent the
  source divides by zero, by Infinity or by NaN; the quotient is then NaN, an infinity or
  zero, and \<open>| 0\<close> makes it 0. The model computes the same 0 (lemma
  \<open>toInt32_zero_divisor\<close> below).
\<close>

definition standardTileXY :: "rectangle \<Rightarrow> int \<Rightarrow> int \<Rightarrow> cartographic \<Rightarrow> cartesian2" where
  "standardTileXY rect xTiles yTiles position =
     (let xTileWidth = Rectangle_width rect / of_int xTiles;
          yTileHeight = Rectangle_height rect / of_int yTiles;
          longitude0 = longitude position;
          longitude1 = (if east rect < west rect then longitude0 + TWO_PI else longitude0);
          xTileCoordinate0 = toInt32 ((longitude1 - west rect) / xTileWidth);
          xTileCoordinate = (if xTileCoordinate0 \<ge> xTiles then xTiles - 1 else xTileCoordinate0);
          yTileCoordinate0 = toInt32 ((north rect - latitude position) / yTileHeight);
          yTileCoordinate = (if yTileCoordinate0 \<ge> yTiles then yTiles - 1 else yTileCoordinate0)
      in \<lparr>c2_x = xTileCoordinate, c2_y = yTileCoordinate\<rparr>)"

text \<open>The matrix-mode coordinates (lines 303-313), for the resolution \<open>r\<close> of the level.\<close>

definition matrixTileXY :: "tileInfo \<Rightarrow> real \<Rightarrow> cartographic \<Rightarrow> cartesian2" where
  "matrixTileXY ti r position =
     (let degLon = toDegrees (longitude position);
          degLat = toDegrees (latitude position);
          x_4490 = Math_floor ((degLon - origin_x (origin ti)) / (rows ti * r));
          y_4490 = Math_floor ((origin_y (origin ti) - degLat) / (cols ti * r))
      in \<lparr>c2_x = x_4490, c2_y = y_4490\<rparr>)"

text \<open>
  \<open>positionToTileXY(position, level, result)\<close> on a heap \<open>h\<close>: the returned address
  (\<open>None\<close> for \<open>undefined\<close>) and the heap afterwards.
\<close>

definition positionToTileXY ::
  "scheme \<Rightarrow> cartographic \<Rightarrow> int \<Rightarrow> nat option \<Rightarrow> heap \<Rightarrow> failure + (nat option \<times> heap)" where
  "positionToTileXY S position lvl result h =
     (let rect = s_rectangle S in
      if \<not> Rectangle_contains rect position then Inr (None, h)
      else
        case s_tileInfo S of
          Some ti \<Rightarrow>
            (case currentResolution ti lvl of
               Inl e \<Rightarrow> Inl e
             | Inr r \<Rightarrow>
                 if rows ti * r = 0 \<or> cols ti * r = 0 then Inl NotFinite
                 else Inr (Some (length h), h @ [matrixTileXY ti r position]))
        | None \<Rightarrow>
            (case getNumberOfXTilesAtLevel S lvl of
               Inl e \<Rightarrow> Inl e
             | Inr xTiles \<Rightarrow>
                 (case getNumberOfYTilesAtLevel S lvl of
                    Inl e \<Rightarrow> Inl e
                  | Inr yTiles \<Rightarrow>
                      (let c = standardTileXY rect xTiles yTiles position in
                       case result of
                         None \<Rightarrow> Inr (Some (length h), h @ [c])
                       | Some a \<Rightarrow> Inr (Some a, h[a := c])))))"

subsection \<open>Example configurations\<close>

text \<open>
  The tile matrix of the specification's example: origin \<open>(-180, 90)\<close>, 256 by 256 cells,
  a level-0 entry of resolution 0.703125, so that one tile spans 180 degrees, and a
  level-1 entry of half that resolution.
\<close>

definition example_tileInfo :: tileInfo where
  "example_tileInfo =
     \<lparr>spatialReference = Some \<lparr>wkid = Some 4490\<rparr>,
      lods = [\<lparr>level = 0, resolution = 0.703125\<rparr>, \<lparr>level = 1, resolution = 0.3515625\<rparr>],
      rows = 256, cols = 256,
      origin = \<lparr>origin_x = - 180, origin_y = 90\<rparr>\<rparr>"

definition matrix_scheme :: scheme where
  "matrix_scheme =
     GeographicTilingScheme (Some (EMPTY_OBJECT\<lparr>o_tileInfo := Some example_tileInfo\<rparr>))"

text \<open>The same matrix with tiles of 256 rows and 512 columns.\<close>

definition oblong_tileInfo :: tileInfo where
  "oblong_tileInfo = example_tileInfo\<lparr>rows := 256, cols := 512\<rparr>"

definition oblong_scheme :: scheme where
  "oblong_scheme =
     GeographicTilingScheme (Some (EMPTY_OBJECT\<lparr>o_tileInfo := Some oblong_tileInfo\<rparr>))"

text \<open>
  The standard-mode scheme of the specification's antimeridian example: a root rectangle
  from 170 degrees east across the date line to 170 degrees west, default tile counts.
\<close>

definition antimeridian_scheme :: scheme where
  "antimeridian_scheme =
     GeographicTilingScheme
       (Some (EMPTY_OBJECT\<lparr>o_rectangle := Some (Rectangle_fromDegrees 170 (- 90) (- 170) 90)\<rparr>))"

text \<open>A standard-mode scheme with 1024 root tiles in X.\<close>

definition wide_scheme :: scheme where
  "wide_scheme =
     GeographicTilingScheme (Some (EMPTY_OBJECT\<lparr>o_numberOfLevelZeroTilesX := Some 1024\<rparr>))"

text \<open>
  The condition the specification gives for matrix mode: a tile-matrix descriptor is
  present whose spatial reference has the identifier 4490. This definition follows the
  specification's words; \<open>is_4490\<close> is the source's test.
\<close>

definition has_4490_descriptor :: "options \<Rightarrow> bool" where
  "has_4490_descriptor opts =
     (Option.bind (Option.bind (o_tileInfo opts) spatialReference) wkid = Some 4490)"

section \<open>Properties\<close>

subsection \<open>Construction\<close>

lemma is_4490_iff: "is_4490 opts = has_4490_descriptor opts"
  by (simp add: is_4490_def has_4490_descriptor_def split: option.splits)

lemma matrix_scheme_fields:
  "s_tileInfo matrix_scheme = Some example_tileInfo"
  "s_rectangle matrix_scheme = Rectangle_fromDegrees (- 180) (- 90) 180 90"
  by (simp_all add: matrix_scheme_def GeographicTilingScheme_def is_4490_def EMPTY_OBJECT_def
      defaultValue_def example_tileInfo_def)

lemma oblong_scheme_fields:
  "s_tileInfo oblong_scheme = Some oblong_tileInfo"
  by (simp add: oblong_scheme_def GeographicTilingScheme_def is_4490_def EMPTY_OBJECT_def
      defaultValue_def oblong_tileInfo_def example_tileInfo_def)

lemma antimeridian_scheme_fields:
  "s_tileInfo antimeridian_scheme = None"
  "s_rectangle antimeridian_scheme = Rectangle_fromDegrees 170 (- 90) (- 170) 90"
  "s_numberOfLevelZeroTilesX antimeridian_scheme = 2"
  "s_numberOfLevelZeroTilesY antimeridian_scheme = 1"
  by (simp_all add: antimeridian_scheme_def GeographicTilingScheme_def is_4490_def
      EMPTY_OBJECT_def defaultValue_def)

lemma wide_scheme_fields:
  "s_tileInfo wide_scheme = None"
  "s_numberOfLevelZeroTilesX wide_scheme = 1024"
  by (simp_all add: wide_scheme_def GeographicTilingScheme_def is_4490_def
      EMPTY_OBJECT_def defaultValue_def)

text \<open>
  C4. The constructor is in matrix mode (\<open>_tileInfo\<close> is set) exactly when the options
  hold a tile-matrix descriptor whose spatial reference has \<open>wkid\<close> 4490. Then the
  defaults are the CGCS2000 ellipsoid, the rectangle from (-180, -90, 180, 90) degrees
  and 4 by 2 root tiles; otherwise they are WGS84, the maximum rectangle and 2 by 1
  root tiles. In both modes an option that is supplied is taken instead of the default.
  Absent options are the empty options, which are standard mode.
\<close>

theorem C4_construction:
  "(s_tileInfo (GeographicTilingScheme (Some opts)) \<noteq> None) = has_4490_descriptor opts
   \<and> GeographicTilingScheme (Some opts) =
       (if has_4490_descriptor opts then
          \<lparr>s_tileInfo = o_tileInfo opts,
           s_ellipsoid = (case o_ellipsoid opts of None \<Rightarrow> CGCS2000 | Some e \<Rightarrow> e),
           s_rectangle =
             (case o_rectangle opts of
                None \<Rightarrow> Rectangle_fromDegrees (- 180) (- 90) 180 90 | Some r \<Rightarrow> r),
           s_numberOfLevelZeroTilesX =
             (case o_numberOfLevelZeroTilesX opts of None \<Rightarrow> 4 | Some n \<Rightarrow> n),
           s_numberOfLevelZeroTilesY =
             (case o_numberOfLevelZeroTilesY opts of None \<Rightarrow> 2 | Some n \<Rightarrow> n),
           s_projection =
             GeographicProjection (case o_ellipsoid opts of None \<Rightarrow> CGCS2000 | Some e \<Rightarrow> e)\<rparr>
        else
          \<lparr>s_tileInfo = None,
           s_ellipsoid = (case o_ellipsoid opts of None \<Rightarrow> WGS84 | Some e \<Rightarrow> e),
           s_rectangle = (case o_rectangle opts of None \<Rightarrow> Rectangle_MAX_VALUE | Some r \<Rightarrow> r),
           s_numberOfLevelZeroTilesX =
             (case o_numberOfLevelZeroTilesX opts of None \<Rightarrow> 2 | Some n \<Rightarrow> n),
           s_numberOfLevelZeroTilesY =
             (case o_numberOfLevelZeroTilesY opts of None \<Rightarrow> 1 | Some n \<Rightarrow> n),
           s_projection =
             GeographicProjection (case o_ellipsoid opts of None \<Rightarrow> WGS84 | Some e \<Rightarrow> e)\<rparr>)
   \<and> GeographicTilingScheme None = GeographicTilingScheme (Some EMPTY_OBJECT)
   \<and> \<not> has_4490_descriptor EMPTY_OBJECT"
proof -
  have a: "is_4490 opts = has_4490_descriptor opts"
    by (rule is_4490_iff)
  have b: "\<not> has_4490_descriptor EMPTY_OBJECT"
    by (simp add: has_4490_descriptor_def EMPTY_OBJECT_def)
  have c: "o_tileInfo opts \<noteq> None" if "has_4490_descriptor opts"
    using that by (cases "o_tileInfo opts") (simp_all add: has_4490_descriptor_def)
  show ?thesis
    using b c
    by (cases "has_4490_descriptor opts")
       (auto simp: GeographicTilingScheme_def a defaultValue_def Let_def)
qed

theorem C4_construction_witness:
  "has_4490_descriptor (EMPTY_OBJECT\<lparr>o_tileInfo := Some example_tileInfo\<rparr>)
   \<and> s_tileInfo matrix_scheme = Some example_tileInfo
   \<and> s_ellipsoid matrix_scheme = CGCS2000
   \<and> s_numberOfLevelZeroTilesX matrix_scheme = 4
   \<and> s_numberOfLevelZeroTilesY matrix_scheme = 2"
  using C4_construction [of "EMPTY_OBJECT\<lparr>o_tileInfo := Some example_tileInfo\<rparr>"]
  by (simp add: matrix_scheme_def has_4490_descriptor_def EMPTY_OBJECT_def example_tileInfo_def)

subsection \<open>Positions outside the root rectangle\<close>

text \<open>
  C6. In either mode, for a position that the root rectangle does not contain,
  \<open>positionToTileXY\<close> returns \<open>undefined\<close> at every level, whatever the \<open>result\<close>
  argument: it does not throw, allocates nothing and writes nowhere.
\<close>

theorem C6_out_of_bounds:
  "\<not> Rectangle_contains (s_rectangle S) position \<Longrightarrow>
     positionToTileXY S position lvl result h = Inr (None, h)"
  by (simp add: positionToTileXY_def)

theorem C6_out_of_bounds_witness:
  "\<not> Rectangle_contains (s_rectangle matrix_scheme) \<lparr>longitude = 0, latitude = pi\<rparr>
   \<and> positionToTileXY matrix_scheme \<lparr>longitude = 0, latitude = pi\<rparr> 7 None [] = Inr (None, [])
   \<and> \<not> Rectangle_contains (s_rectangle antimeridian_scheme) \<lparr>longitude = 0, latitude = 0\<rparr>
   \<and> positionToTileXY antimeridian_scheme \<lparr>longitude = 0, latitude = 0\<rparr> 3 (Some 0)
         [\<lparr>c2_x = 7, c2_y = 7\<rparr>] = Inr (None, [\<lparr>c2_x = 7, c2_y = 7\<rparr>])"
proof -
  have m: "\<not> Rectangle_contains (s_rectangle matrix_scheme) \<lparr>longitude = 0, latitude = pi\<rparr>"
    by (simp add: matrix_scheme_fields Rectangle_contains_def Rectangle_fromDegrees_def
        toRadians_def not_le)
  have a: "\<not> Rectangle_contains (s_rectangle antimeridian_scheme) \<lparr>longitude = 0, latitude = 0\<rparr>"
    by (simp add: antimeridian_scheme_fields Rectangle_contains_def Rectangle_fromDegrees_def
        toRadians_def TWO_PI_def not_le)
  show ?thesis
    using m a C6_out_of_bounds [OF m, of 7 None "[]"]
      C6_out_of_bounds [OF a, of 3 "Some 0" "[\<lparr>c2_x = 7, c2_y = 7\<rparr>]"]
    by simp
qed

subsection \<open>Tile counts in standard mode\<close>

text \<open>The 32-bit shift is a multiplication by a power of two as long as the product fits.\<close>

lemma shiftLeft_exact:
  assumes "0 \<le> n" "n < 32" "- (2 ^ 31) \<le> a * 2 ^ nat n" "a * 2 ^ nat n < 2 ^ 31"
  shows "shiftLeft a n = a * 2 ^ nat n"
proof -
  have m: "n mod 32 = n" using assms by simp
  have "push_bit (nat n) (word_of_int a :: 32 word) = word_of_int (a * 2 ^ nat n)"
    by (simp add: push_bit_eq_mult)
  then have "shiftLeft a n = sint (word_of_int (a * 2 ^ nat n) :: 32 word)"
    by (simp add: shiftLeft_def m)
  also have "\<dots> = signed_take_bit 31 (a * 2 ^ nat n)"
    unfolding sint_sbintrunc' by simp
  also have "\<dots> = a * 2 ^ nat n"
    using assms(3,4) by (simp add: signed_take_bit_int_eq_self)
  finally show ?thesis .
qed

lemma doubling_step:
  assumes "0 \<le> lvl" "lvl \<le> 30"
    and lo: "- (2 ^ 31) \<le> n * 2 ^ (nat lvl + 1)" and hi: "n * 2 ^ (nat lvl + 1) < 2 ^ 31"
  shows "shiftLeft n lvl = n * 2 ^ nat lvl \<and> shiftLeft n (lvl + 1) = 2 * (n * 2 ^ nat lvl)"
proof -
  have k: "nat (lvl + 1) = nat lvl + 1" using assms(1) by simp
  have e: "n * 2 ^ (nat lvl + 1) = 2 * (n * 2 ^ nat lvl)" by simp
  have lo': "- (2 ^ 31) \<le> n * 2 ^ nat lvl" using lo unfolding e by simp
  have hi': "n * 2 ^ nat lvl < 2 ^ 31" using hi unfolding e by simp
  have 1: "shiftLeft n lvl = n * 2 ^ nat lvl"
    using assms(1,2) lo' hi' by (intro shiftLeft_exact) simp_all
  have 2: "shiftLeft n (lvl + 1) = n * 2 ^ nat (lvl + 1)"
  proof (rule shiftLeft_exact)
    show "0 \<le> lvl + 1" using assms(1) by simp
    show "lvl + 1 < 32" using assms(2) by simp
    show "- (2 ^ 31) \<le> n * 2 ^ nat (lvl + 1)" using lo by (simp only: k)
    show "n * 2 ^ nat (lvl + 1) < 2 ^ 31" using hi by (simp only: k)
  qed
  show ?thesis using 1 2 by (simp add: k)
qed

text \<open>
  C9 (as amended). In standard mode, for a level from 0 to 30 and root tile counts
  whose product with \<open>2 ^ (level + 1)\<close> fits a signed 32-bit integer, the tile count at
  \<open>level\<close> is the root count times \<open>2 ^ level\<close> and the count at \<open>level + 1\<close> is
  twice that, in X and in Y. For levels 0 to 20 this covers every root count from
  -1024 to 1023, the defaults 2 and 1 among them.
\<close>

theorem C9_tile_count_doubling:
  assumes "s_tileInfo S = None" "0 \<le> lvl" "lvl \<le> 30"
    and "- (2 ^ 31) \<le> s_numberOfLevelZeroTilesX S * 2 ^ (nat lvl + 1)"
    and "s_numberOfLevelZeroTilesX S * 2 ^ (nat lvl + 1) < 2 ^ 31"
    and "- (2 ^ 31) \<le> s_numberOfLevelZeroTilesY S * 2 ^ (nat lvl + 1)"
    and "s_numberOfLevelZeroTilesY S * 2 ^ (nat lvl + 1) < 2 ^ 31"
  shows "getNumberOfXTilesAtLevel S lvl = Inr (s_numberOfLevelZeroTilesX S * 2 ^ nat lvl)
       \<and> getNumberOfXTilesAtLevel S (lvl + 1) = Inr (2 * (s_numberOfLevelZeroTilesX S * 2 ^ nat lvl))
       \<and> getNumberOfYTilesAtLevel S lvl = Inr (s_numberOfLevelZeroTilesY S * 2 ^ nat lvl)
       \<and> getNumberOfYTilesAtLevel S (lvl + 1) = Inr (2 * (s_numberOfLevelZeroTilesY S * 2 ^ nat lvl))"
  using assms(1) doubling_step [OF assms(2,3,4,5)] doubling_step [OF assms(2,3,6,7)]
  by (simp add: getNumberOfXTilesAtLevel_def getNumberOfYTilesAtLevel_def)

lemma default_fields:
  "s_tileInfo (GeographicTilingScheme None) = None"
  "s_numberOfLevelZeroTilesX (GeographicTilingScheme None) = 2"
  "s_numberOfLevelZeroTilesY (GeographicTilingScheme None) = 1"
  "s_rectangle (GeographicTilingScheme None) = Rectangle_MAX_VALUE"
  by (simp_all add: GeographicTilingScheme_def is_4490_def EMPTY_OBJECT_def defaultValue_def)

theorem C9_tile_count_doubling_witness:
  "getNumberOfXTilesAtLevel (GeographicTilingScheme None) 20 = Inr 2097152
   \<and> getNumberOfXTilesAtLevel (GeographicTilingScheme None) 21 = Inr 4194304
   \<and> getNumberOfYTilesAtLevel (GeographicTilingScheme None) 20 = Inr 1048576
   \<and> getNumberOfYTilesAtLevel (GeographicTilingScheme None) 21 = Inr 2097152"
  using C9_tile_count_doubling [of "GeographicTilingScheme None" 20]
  by (simp add: default_fields)

text \<open>
  With 1024 root tiles in X the count at level 21 is not twice the count at level 20:
  \<open>1024 << 21\<close> wraps to \<open>- 2^31\<close>.
\<close>

theorem C9_counterexample:
  "s_tileInfo wide_scheme = None
   \<and> getNumberOfXTilesAtLevel wide_scheme 20 = Inr 1073741824
   \<and> getNumberOfXTilesAtLevel wide_scheme (20 + 1) = Inr (- 2147483648)
   \<and> getNumberOfXTilesAtLevel wide_scheme (20 + 1) \<noteq> Inr (2 * 1073741824)"
  by (simp add: wide_scheme_fields getNumberOfXTilesAtLevel_def shiftLeft_def)

subsection \<open>The level lookup and the matrix tile counts\<close>

lemma toDegrees_TWO_PI: "toDegrees TWO_PI = 360"
  by (simp add: toDegrees_def TWO_PI_def)

lemma toDegrees_PI: "toDegrees (TWO_PI / 2) = 180"
  by (simp add: toDegrees_def TWO_PI_def)

text \<open>The first element of the filtered table is the first entry of the level.\<close>

lemma filter_find_case:
  "(case filter P xs of [] \<Rightarrow> a | m # _ \<Rightarrow> f m) = (case find P xs of None \<Rightarrow> a | Some m \<Rightarrow> f m)"
  by (induction xs) simp_all

lemma currentResolution_find:
  "currentResolution ti lvl =
     (case find (\<lambda>item. level item = lvl) (lods ti) of
        None \<Rightarrow> Inl TypeError | Some m \<Rightarrow> Inr (resolution m))"
  unfolding currentResolution_def currentMatrix_def by (rule filter_find_case)

lemma currentMatrix_empty_iff:
  "(currentMatrix ti lvl = []) = (\<not> (\<exists>item \<in> set (lods ti). level item = lvl))"
  by (auto simp: currentMatrix_def filter_empty_conv)

lemma Math_round_nonneg:
  "0 \<le> v \<Longrightarrow> Math_round v = round_half_away_from_zero v"
  by (simp add: Math_round_def round_half_away_from_zero_def)

text \<open>
  C1 (as amended). In matrix mode, for a level whose first entry in the level table
  has resolution \<open>r\<close>, with \<open>rows\<close>, \<open>cols\<close> and \<open>r\<close> positive,
  \<open>getNumberOfXTilesAtLevel\<close> returns \<open>360 / (rows * r)\<close> rounded and
  \<open>getNumberOfYTilesAtLevel\<close> returns \<open>180 / (cols * r)\<close> rounded. \<open>Math.round\<close>
  sends a tie up; on these positive quotients that is rounding half away from zero.
\<close>

theorem C1_matrix_tile_counts:
  assumes "s_tileInfo S = Some ti"
    and "find (\<lambda>item. level item = lvl) (lods ti) = Some m"
    and "0 < rows ti" "0 < cols ti" "0 < resolution m"
  shows "getNumberOfXTilesAtLevel S lvl =
           Inr (round_half_away_from_zero (360 / (rows ti * resolution m)))
       \<and> getNumberOfYTilesAtLevel S lvl =
           Inr (round_half_away_from_zero (180 / (cols ti * resolution m)))"
proof -
  have r: "currentResolution ti lvl = Inr (resolution m)"
    using assms(2) by (simp add: currentResolution_find)
  have px: "0 < rows ti * resolution m" and py: "0 < cols ti * resolution m"
    using assms(3,4,5) by simp_all
  have qx: "0 \<le> 360 / (rows ti * resolution m)" and qy: "0 \<le> 180 / (cols ti * resolution m)"
    using px py by simp_all
  have nx: "rows ti \<noteq> 0" and ny: "cols ti \<noteq> 0" and nr: "resolution m \<noteq> 0"
    using assms(3,4,5) by simp_all
  have x: "getNumberOfXTilesAtLevel S lvl = Inr (Math_round (360 / (rows ti * resolution m)))"
    using assms(1) r nx nr by (simp add: getNumberOfXTilesAtLevel_def toDegrees_TWO_PI)
  have y: "getNumberOfYTilesAtLevel S lvl = Inr (Math_round (180 / (cols ti * resolution m)))"
    using assms(1) r ny nr by (simp add: getNumberOfYTilesAtLevel_def toDegrees_PI)
  show ?thesis
    using x y Math_round_nonneg [OF qx] Math_round_nonneg [OF qy] by simp
qed

lemma example_find0:
  "find (\<lambda>item. level item = 0) (lods example_tileInfo) = Some \<lparr>level = 0, resolution = 0.703125\<rparr>"
  by (simp add: example_tileInfo_def)

theorem C1_matrix_tile_counts_witness:
  "getNumberOfXTilesAtLevel matrix_scheme 0 = Inr 2
   \<and> getNumberOfYTilesAtLevel matrix_scheme 0 = Inr 1"
  using C1_matrix_tile_counts [OF matrix_scheme_fields(1) example_find0]
  by (simp add: example_tileInfo_def round_half_away_from_zero_def)

lemma example_find1:
  "find (\<lambda>item. level item = 1) (lods example_tileInfo) = Some \<lparr>level = 1, resolution = 0.3515625\<rparr>"
  by (simp add: example_tileInfo_def)

lemma oblong_find0:
  "find (\<lambda>item. level item = 0) (lods oblong_tileInfo) = Some \<lparr>level = 0, resolution = 0.703125\<rparr>"
  by (simp add: oblong_tileInfo_def example_tileInfo_def)

text \<open>
  For the example matrix at level 1, where a tile spans 90 degrees, the source returns
  4 tiles in X and 2 in Y; \<open>180 / (cols * r)\<close> and \<open>90 / (rows * r)\<close>, rounded half away
  from zero, are 2 and 1. For tiles of 256 rows and 512 columns at level 0 the source
  returns 2 tiles in X, from \<open>rows\<close>; \<open>360 / (cols * r)\<close> rounded is 1.
\<close>

theorem C1_counterexample:
  "getNumberOfXTilesAtLevel matrix_scheme 1 = Inr 4
   \<and> round_half_away_from_zero (180 / (cols example_tileInfo * 0.3515625)) = 2
   \<and> getNumberOfYTilesAtLevel matrix_scheme 1 = Inr 2
   \<and> round_half_away_from_zero (90 / (rows example_tileInfo * 0.3515625)) = 1
   \<and> getNumberOfXTilesAtLevel oblong_scheme 0 = Inr 2
   \<and> round_half_away_from_zero (360 / (cols oblong_tileInfo * 0.703125)) = 1"
proof -
  have x1: "getNumberOfXTilesAtLevel matrix_scheme 1 = Inr 4"
    by (simp add: getNumberOfXTilesAtLevel_def matrix_scheme_fields currentResolution_find
        example_find1 toDegrees_TWO_PI Math_round_def)
       (simp add: example_tileInfo_def)
  have y1: "getNumberOfYTilesAtLevel matrix_scheme 1 = Inr 2"
    by (simp add: getNumberOfYTilesAtLevel_def matrix_scheme_fields currentResolution_find
        example_find1 toDegrees_PI Math_round_def)
       (simp add: example_tileInfo_def)
  have x0: "getNumberOfXTilesAtLevel oblong_scheme 0 = Inr 2"
    by (simp add: getNumberOfXTilesAtLevel_def oblong_scheme_fields currentResolution_find
        oblong_find0 toDegrees_TWO_PI Math_round_def)
       (simp add: oblong_tileInfo_def example_tileInfo_def)
  have c: "round_half_away_from_zero (180 / (cols example_tileInfo * 0.3515625)) = 2"
    "round_half_away_from_zero (90 / (rows example_tileInfo * 0.3515625)) = 1"
    "round_half_away_from_zero (360 / (cols oblong_tileInfo * 0.703125)) = 1"
    by (simp_all add: round_half_away_from_zero_def example_tileInfo_def oblong_tileInfo_def)
  show ?thesis using x1 y1 x0 c by simp
qed

subsection \<open>The matrix-mode example rectangle\<close>

text \<open>
  C2 (as amended). In matrix mode with origin \<open>(-180, 90)\<close>, \<open>rows = cols = 256\<close> and
  a first level-0 entry of resolution 0.703125, \<open>tileXYToRectangle(0, 0, 0)\<close> has
  west -180, south -90, east 0 and north 90 degrees, each converted to radians: one tile
  is \<open>256 * 0.703125 = 180\<close> degrees wide and high, so south is \<open>90 - 180\<close>.
\<close>

theorem C2_matrix_example:
  assumes "s_tileInfo S = Some ti"
    and "origin ti = \<lparr>origin_x = - 180, origin_y = 90\<rparr>"
    and "rows ti = 256" "cols ti = 256"
    and "find (\<lambda>item. level item = 0) (lods ti) = Some m"
    and "resolution m = 0.703125"
  shows "tileXYToRectangle S 0 0 0 =
           Inr \<lparr>west = toRadians (- 180), south = toRadians (- 90),
                east = toRadians 0, north = toRadians 90\<rparr>"
proof -
  have r: "currentResolution ti 0 = Inr 0.703125"
    using assms(5,6) by (simp add: currentResolution_find)
  show ?thesis
    using assms(1,2,3,4) r by (simp add: tileXYToRectangle_def)
qed

theorem C2_matrix_example_witness:
  "tileXYToRectangle matrix_scheme 0 0 0 =
     Inr \<lparr>west = toRadians (- 180), south = toRadians (- 90),
          east = toRadians 0, north = toRadians 90\<rparr>"
  using C2_matrix_example [OF matrix_scheme_fields(1) _ _ _ example_find0]
  by (simp add: example_tileInfo_def)

text \<open>The rectangle is not the one with south at 0 degrees.\<close>

theorem C2_counterexample:
  "tileXYToRectangle matrix_scheme 0 0 0 \<noteq>
     Inr \<lparr>west = toRadians (- 180), south = toRadians 0,
          east = toRadians 0, north = toRadians 90\<rparr>"
  by (simp add: tileXYToRectangle_def matrix_scheme_fields currentResolution_find example_find0)
     (simp add: example_tileInfo_def toRadians_def)

subsection \<open>The unguarded level lookup\<close>

text \<open>Each of the four functions throws exactly when it reaches an empty lookup.\<close>

lemma getX_TypeError_iff:
  "s_tileInfo S = Some ti \<Longrightarrow>
     (getNumberOfXTilesAtLevel S lvl = Inl TypeError) = (currentMatrix ti lvl = [])"
  by (auto simp: getNumberOfXTilesAtLevel_def currentResolution_def split: list.splits)

lemma getY_TypeError_iff:
  "s_tileInfo S = Some ti \<Longrightarrow>
     (getNumberOfYTilesAtLevel S lvl = Inl TypeError) = (currentMatrix ti lvl = [])"
  by (auto simp: getNumberOfYTilesAtLevel_def currentResolution_def split: list.splits)

lemma tileXYToRectangle_TypeError_iff:
  "s_tileInfo S = Some ti \<Longrightarrow>
     (tileXYToRectangle S x y lvl = Inl TypeError) = (currentMatrix ti lvl = [])"
  by (auto simp: tileXYToRectangle_def currentResolution_def Let_def split: list.splits)

lemma positionToTileXY_TypeError_iff:
  "s_tileInfo S = Some ti \<Longrightarrow>
     (positionToTileXY S position lvl result h = Inl TypeError) =
       (Rectangle_contains (s_rectangle S) position \<and> currentMatrix ti lvl = [])"
  by (auto simp: positionToTileXY_def currentResolution_def Let_def split: list.splits)

text \<open>A lookup that is not empty yields the first entry of the level and its resolution.\<close>

lemma currentMatrix_nonempty:
  assumes "\<exists>item \<in> set (lods ti). level item = lvl"
  shows "\<exists>m ms. currentMatrix ti lvl = m # ms \<and> m \<in> set (lods ti) \<and> level m = lvl
           \<and> currentResolution ti lvl = Inr (resolution m)"
proof -
  have "currentMatrix ti lvl \<noteq> []"
    using assms by (simp add: currentMatrix_empty_iff)
  then obtain m ms where c: "currentMatrix ti lvl = m # ms"
    by (cases "currentMatrix ti lvl") auto
  have "m \<in> set (currentMatrix ti lvl)"
    by (simp add: c)
  then have "m \<in> set (lods ti) \<and> level m = lvl"
    by (simp add: currentMatrix_def)
  moreover have "currentResolution ti lvl = Inr (resolution m)"
    by (simp add: currentResolution_def c)
  ultimately show ?thesis using c by blast
qed

text \<open>
  C5. In matrix mode, when the level table has an entry whose level is the requested
  one, the lookup that \<open>getNumberOfXTilesAtLevel\<close>, \<open>getNumberOfYTilesAtLevel\<close>,
  \<open>tileXYToRectangle\<close> and \<open>positionToTileXY\<close> perform is not empty: its first element
  is an entry of that level, its resolution is read, and none of the four ends in the
  TypeError of an empty lookup. When no entry matches, the lookup is empty and the
  operation fails with that TypeError: the first three at every call, and
  \<open>positionToTileXY\<close> at every call that performs the lookup, which is every call with
  a position inside the root rectangle (the containment test of lines 291-294 comes
  before the lookup).
\<close>

theorem C5_level_lookup:
  assumes "s_tileInfo S = Some ti"
  shows "((\<exists>item \<in> set (lods ti). level item = lvl) \<longrightarrow>
            (\<exists>m ms. currentMatrix ti lvl = m # ms \<and> m \<in> set (lods ti) \<and> level m = lvl
                \<and> currentResolution ti lvl = Inr (resolution m))
          \<and> getNumberOfXTilesAtLevel S lvl \<noteq> Inl TypeError
          \<and> getNumberOfYTilesAtLevel S lvl \<noteq> Inl TypeError
          \<and> tileXYToRectangle S x y lvl \<noteq> Inl TypeError
          \<and> positionToTileXY S position lvl result h \<noteq> Inl TypeError)
       \<and> (\<not> (\<exists>item \<in> set (lods ti). level item = lvl) \<longrightarrow>
            currentMatrix ti lvl = []
          \<and> currentResolution ti lvl = Inl TypeError
          \<and> getNumberOfXTilesAtLevel S lvl = Inl TypeError
          \<and> getNumberOfYTilesAtLevel S lvl = Inl TypeError
          \<and> tileXYToRectangle S x y lvl = Inl TypeError
          \<and> (Rectangle_contains (s_rectangle S) position \<longrightarrow>
                positionToTileXY S position lvl result h = Inl TypeError))"
proof -
  have e: "(currentMatrix ti lvl = []) = (\<not> (\<exists>item \<in> set (lods ti). level item = lvl))"
    by (rule currentMatrix_empty_iff)
  have r: "currentResolution ti lvl = Inl TypeError" if "currentMatrix ti lvl = []"
    using that by (simp add: currentResolution_def)
  have n: "\<exists>m ms. currentMatrix ti lvl = m # ms \<and> m \<in> set (lods ti) \<and> level m = lvl
             \<and> currentResolution ti lvl = Inr (resolution m)"
    if "\<exists>item \<in> set (lods ti). level item = lvl"
    using that by (rule currentMatrix_nonempty)
  show ?thesis
  proof (cases "\<exists>item \<in> set (lods ti). level item = lvl")
    case True
    then have ne: "currentMatrix ti lvl \<noteq> []" by (simp add: e)
    show ?thesis
      using True n [OF True] ne
        getX_TypeError_iff [OF assms, of lvl] getY_TypeError_iff [OF assms, of lvl]
        tileXYToRectangle_TypeError_iff [OF assms, of x y lvl]
        positionToTileXY_TypeError_iff [OF assms, of position lvl result h]
      by simp
  next
    case False
    then have em: "currentMatrix ti lvl = []" by (simp add: e)
    show ?thesis
      using False em r [OF em]
        getX_TypeError_iff [OF assms, of lvl] getY_TypeError_iff [OF assms, of lvl]
        tileXYToRectangle_TypeError_iff [OF assms, of x y lvl]
        positionToTileXY_TypeError_iff [OF assms, of position lvl result h]
      by simp
  qed
qed

theorem C5_level_lookup_witness:
  "currentMatrix example_tileInfo 0 = [\<lparr>level = 0, resolution = 0.703125\<rparr>]
   \<and> currentResolution example_tileInfo 0 = Inr 0.703125
   \<and> getNumberOfXTilesAtLevel matrix_scheme 0 \<noteq> Inl TypeError
   \<and> getNumberOfYTilesAtLevel matrix_scheme 0 \<noteq> Inl TypeError
   \<and> tileXYToRectangle matrix_scheme 0 0 0 \<noteq> Inl TypeError
   \<and> positionToTileXY matrix_scheme \<lparr>longitude = 0, latitude = 0\<rparr> 0 None [] \<noteq> Inl TypeError
   \<and> currentMatrix example_tileInfo 5 = []
   \<and> Rectangle_contains (s_rectangle matrix_scheme) \<lparr>longitude = 0, latitude = 0\<rparr>
   \<and> getNumberOfXTilesAtLevel matrix_scheme 5 = Inl TypeError
   \<and> getNumberOfYTilesAtLevel matrix_scheme 5 = Inl TypeError
   \<and> tileXYToRectangle matrix_scheme 0 0 5 = Inl TypeError
   \<and> positionToTileXY matrix_scheme \<lparr>longitude = 0, latitude = 0\<rparr> 5 None [] = Inl TypeError"
proof -
  have c: "Rectangle_contains (s_rectangle matrix_scheme) \<lparr>longitude = 0, latitude = 0\<rparr>"
    by (simp add: matrix_scheme_fields Rectangle_contains_def Rectangle_fromDegrees_def
        toRadians_def)
  have l: "lods example_tileInfo =
      [\<lparr>level = 0, resolution = 0.703125\<rparr>, \<lparr>level = 1, resolution = 0.3515625\<rparr>]"
    by (simp add: example_tileInfo_def)
  have m0: "currentMatrix example_tileInfo 0 = [\<lparr>level = 0, resolution = 0.703125\<rparr>]"
    and r0: "currentResolution example_tileInfo 0 = Inr 0.703125"
    by (simp_all add: currentResolution_def currentMatrix_def l)
  show ?thesis
    using c m0 r0
      C5_level_lookup [OF matrix_scheme_fields(1), of 0 0 0 "\<lparr>longitude = 0, latitude = 0\<rparr>" None "[]"]
      C5_level_lookup [OF matrix_scheme_fields(1), of 5 0 0 "\<lparr>longitude = 0, latitude = 0\<rparr>" None "[]"]
    by (simp add: l)
qed

subsection \<open>Truncation and clamping within the 32-bit range\<close>

lemma sint32_id:
  assumes "- (2 ^ 31) \<le> k" "k < 2 ^ 31"
  shows "sint (word_of_int k :: 32 word) = k"
proof -
  have "sint (word_of_int k :: 32 word) = signed_take_bit 31 k"
    unfolding sint_sbintrunc' by simp
  then show ?thesis using assms by (simp add: signed_take_bit_int_eq_self)
qed

lemma toInt32_floor:
  assumes "0 \<le> v" "v < 2 ^ 31"
  shows "toInt32 v = \<lfloor>v\<rfloor>"
proof -
  have a: "0 \<le> \<lfloor>v\<rfloor>" using assms(1) by simp
  have b: "\<lfloor>v\<rfloor> < 2 ^ 31" using assms(2) by (simp add: floor_less_iff)
  have "sint (word_of_int \<lfloor>v\<rfloor> :: 32 word) = \<lfloor>v\<rfloor>"
    using a b by (intro sint32_id) simp_all
  then show ?thesis using assms(1) by (simp add: toInt32_def trunc_toward_zero_def)
qed

lemma toInt32_zero_divisor:
  "n = 0 \<or> W = 0 \<Longrightarrow> toInt32 (d / (W / of_int n)) = 0"
  by (auto simp: toInt32_def trunc_toward_zero_def)

lemma shiftLeft_bounds: "- (2 ^ 31) \<le> shiftLeft a n" "shiftLeft a n < 2 ^ 31"
  using sint_ge [of "push_bit (nat (n mod 32)) (word_of_int a :: 32 word)"]
    sint_lt [of "push_bit (nat (n mod 32)) (word_of_int a :: 32 word)"]
  by (simp_all add: shiftLeft_def)

text \<open>The truncated and clamped quotient of an offset within an extent.\<close>

lemma clamped_index_in_range:
  fixes d W :: real and n :: int
  assumes "0 \<le> d" "d \<le> W" "1 \<le> n" "n < 2 ^ 31"
  defines "t \<equiv> toInt32 (d / (W / of_int n))"
  shows "0 \<le> (if n \<le> t then n - 1 else t) \<and> (if n \<le> t then n - 1 else t) \<le> n - 1"
proof -
  have q0: "0 \<le> d / (W / of_int n)"
    using assms(1,2,3) by simp
  have qn: "d / (W / of_int n) \<le> of_int n"
  proof (cases "W = 0")
    case True
    then show ?thesis using assms(3) by simp
  next
    case False
    then have "0 < W" using assms(1,2) by simp
    then have "d / (W / of_int n) = (d / W) * of_int n" by simp
    moreover have "d / W \<le> 1" using \<open>0 < W\<close> assms(2) by simp
    moreover have "(0::real) \<le> of_int n" using assms(3) by simp
    ultimately show ?thesis
      using mult_right_mono [of "d / W" 1 "of_int n"] by simp
  qed
  have lt: "d / (W / of_int n) < 2 ^ 31"
  proof -
    have "(of_int n :: real) < 2 ^ 31" using assms(4) by (metis of_int_less_numeral_power_cancel_iff)
    then show ?thesis using qn by linarith
  qed
  have t: "t = \<lfloor>d / (W / of_int n)\<rfloor>"
    unfolding t_def using q0 lt by (rule toInt32_floor)
  have "0 \<le> t" using q0 by (simp add: t)
  moreover have "t \<le> n" using qn by (simp add: t floor_le_iff)
  ultimately show ?thesis using assms(3) by auto
qed

lemma toInt32_half:
  assumes "0 \<le> x" "x < 2 ^ 31"
  shows "toInt32 (of_int x + 1 / 2) = x"
proof -
  have a: "(0::real) \<le> of_int x + 1 / 2" using assms(1) by simp
  have "x + 1 \<le> 2 ^ 31" using assms(2) by simp
  then have "(of_int (x + 1) :: real) \<le> 2 ^ 31"
    by (metis of_int_le_numeral_power_cancel_iff)
  then have b: "(of_int x + 1 / 2 :: real) < 2 ^ 31" by simp
  have "\<lfloor>of_int x + 1 / 2 :: real\<rfloor> = x" by (simp add: floor_eq_iff)
  then show ?thesis using toInt32_floor [OF a b] by simp
qed

lemma half_step_le:
  fixes W :: real
  assumes "0 < W" "0 \<le> x" "x < n"
  shows "0 \<le> (of_int x + 1 / 2) * (W / of_int n)" "(of_int x + 1 / 2) * (W / of_int n) \<le> W"
proof -
  have n: "(0::real) < of_int n" using assms(2,3) by simp
  have x0: "(0::real) \<le> of_int x + 1 / 2" using assms(2) by simp
  show "0 \<le> (of_int x + 1 / 2) * (W / of_int n)"
    using x0 n assms(1) by simp
  have "x + 1 \<le> n" using assms(3) by simp
  then have "(of_int (x + 1) :: real) \<le> of_int n" by (simp only: of_int_le_iff)
  then have "(of_int x + 1 / 2 :: real) \<le> of_int n" by simp
  then have "(of_int x + 1 / 2) * (W / of_int n) \<le> of_int n * (W / of_int n)"
    using assms(1) n by (intro mult_right_mono) simp_all
  also have "\<dots> = W" using n by simp
  finally show "(of_int x + 1 / 2) * (W / of_int n) \<le> W" .
qed

subsection \<open>Standard mode: tiles and positions\<close>

lemma getTiles_standard:
  assumes "s_tileInfo S = None"
  shows "getNumberOfXTilesAtLevel S lvl = Inr (shiftLeft (s_numberOfLevelZeroTilesX S) lvl)"
    and "getNumberOfYTilesAtLevel S lvl = Inr (shiftLeft (s_numberOfLevelZeroTilesY S) lvl)"
  using assms by (simp_all add: getNumberOfXTilesAtLevel_def getNumberOfYTilesAtLevel_def)

lemma tileXYToRectangle_standard:
  assumes "s_tileInfo S = None"
    and "shiftLeft (s_numberOfLevelZeroTilesX S) lvl \<noteq> 0"
    and "shiftLeft (s_numberOfLevelZeroTilesY S) lvl \<noteq> 0"
  shows "tileXYToRectangle S x y lvl =
     Inr \<lparr>west = of_int x * (Rectangle_width (s_rectangle S) / of_int (shiftLeft (s_numberOfLevelZeroTilesX S) lvl))
                  + west (s_rectangle S),
          south = north (s_rectangle S)
                  - (of_int y + 1) * (Rectangle_height (s_rectangle S) / of_int (shiftLeft (s_numberOfLevelZeroTilesY S) lvl)),
          east = (of_int x + 1) * (Rectangle_width (s_rectangle S) / of_int (shiftLeft (s_numberOfLevelZeroTilesX S) lvl))
                  + west (s_rectangle S),
          north = north (s_rectangle S)
                  - of_int y * (Rectangle_height (s_rectangle S) / of_int (shiftLeft (s_numberOfLevelZeroTilesY S) lvl))\<rparr>"
  using assms by (simp add: tileXYToRectangle_def getTiles_standard Let_def)

lemma standard_positionToTileXY:
  assumes "s_tileInfo S = None" "Rectangle_contains (s_rectangle S) position"
  shows "positionToTileXY S position lvl result h =
           (let c = standardTileXY (s_rectangle S)
                      (shiftLeft (s_numberOfLevelZeroTilesX S) lvl)
                      (shiftLeft (s_numberOfLevelZeroTilesY S) lvl) position
            in case result of
                 None \<Rightarrow> Inr (Some (length h), h @ [c])
               | Some a \<Rightarrow> Inr (Some a, h[a := c]))"
  using assms
  by (simp add: positionToTileXY_def getNumberOfXTilesAtLevel_def getNumberOfYTilesAtLevel_def)

lemma shiftLeft_0: "shiftLeft 2 0 = 2" "shiftLeft 1 0 = 1"
  by (simp_all add: shiftLeft_def)

lemma shiftLeft_26: "shiftLeft 2 26 = 134217728" "shiftLeft 1 26 = 67108864"
  by (simp_all add: shiftLeft_def)

text \<open>
  For a root rectangle that does not wrap, the indices of a contained position are in
  range at every level with at least one tile in X and in Y.
\<close>

lemma standardTileXY_in_range:
  assumes nowrap: "\<not> east rect < west rect"
    and inside: "Rectangle_contains rect position"
    and nx: "1 \<le> xTiles" "xTiles < 2 ^ 31" and ny: "1 \<le> yTiles" "yTiles < 2 ^ 31"
  shows "0 \<le> c2_x (standardTileXY rect xTiles yTiles position)
       \<and> c2_x (standardTileXY rect xTiles yTiles position) \<le> xTiles - 1
       \<and> 0 \<le> c2_y (standardTileXY rect xTiles yTiles position)
       \<and> c2_y (standardTileXY rect xTiles yTiles position) \<le> yTiles - 1"
proof -
  have lon: "0 \<le> longitude position - west rect"
      "longitude position - west rect \<le> east rect - west rect"
    and lat: "0 \<le> north rect - latitude position"
      "north rect - latitude position \<le> north rect - south rect"
    using nowrap inside by (simp_all add: Rectangle_contains_def Let_def)
  have w: "Rectangle_width rect = east rect - west rect"
    using nowrap by (simp add: Rectangle_width_def)
  have x: "c2_x (standardTileXY rect xTiles yTiles position) =
      (let t = toInt32 ((longitude position - west rect) / ((east rect - west rect) / of_int xTiles))
       in if xTiles \<le> t then xTiles - 1 else t)"
    using nowrap by (simp add: standardTileXY_def w Let_def)
  have y: "c2_y (standardTileXY rect xTiles yTiles position) =
      (let t = toInt32 ((north rect - latitude position) / ((north rect - south rect) / of_int yTiles))
       in if yTiles \<le> t then yTiles - 1 else t)"
    by (simp add: standardTileXY_def Rectangle_height_def Let_def)
  show ?thesis
    using clamped_index_in_range [OF lon nx] clamped_index_in_range [OF lat ny]
    unfolding x y Let_def by simp
qed

lemma in_range_nonwrapping:
  assumes std: "s_tileInfo S = None"
    and nowrap: "\<not> east (s_rectangle S) < west (s_rectangle S)"
    and inside: "Rectangle_contains (s_rectangle S) position"
    and gx: "getNumberOfXTilesAtLevel S lvl = Inr xTiles"
    and gy: "getNumberOfYTilesAtLevel S lvl = Inr yTiles"
    and n: "1 \<le> xTiles" "1 \<le> yTiles"
  shows "\<exists>c. positionToTileXY S position lvl None h = Inr (Some (length h), h @ [c])
          \<and> 0 \<le> c2_x c \<and> c2_x c \<le> xTiles - 1 \<and> 0 \<le> c2_y c \<and> c2_y c \<le> yTiles - 1"
proof -
  have ex: "xTiles = shiftLeft (s_numberOfLevelZeroTilesX S) lvl"
    and ey: "yTiles = shiftLeft (s_numberOfLevelZeroTilesY S) lvl"
    using gx gy by (simp_all add: getTiles_standard [OF std])
  have bx: "xTiles < 2 ^ 31" and by': "yTiles < 2 ^ 31"
    unfolding ex ey by (rule shiftLeft_bounds)+
  have p: "positionToTileXY S position lvl None h
       = Inr (Some (length h), h @ [standardTileXY (s_rectangle S) xTiles yTiles position])"
    using inside by (simp add: standard_positionToTileXY [OF std] ex [symmetric] ey [symmetric])
  show ?thesis
    using p standardTileXY_in_range [OF nowrap inside n(1) bx n(2) by'] by blast
qed

text \<open>
  For a root rectangle that does not wrap, with positive width and height, the centre of
  the tile \<open>(x, y)\<close> is a position of the root rectangle and maps back to \<open>(x, y)\<close>.
\<close>

lemma standardTileXY_center:
  fixes rect :: rectangle
  assumes rect: "west rect < east rect" "south rect < north rect" "east rect \<le> pi"
    and x: "0 \<le> x" "x < xTiles" "xTiles < 2 ^ 31" and y: "0 \<le> y" "y < yTiles" "yTiles < 2 ^ 31"
  defines "w \<equiv> Rectangle_width rect / of_int xTiles"
    and "ht \<equiv> Rectangle_height rect / of_int yTiles"
  defines "T \<equiv> \<lparr>west = of_int x * w + west rect, south = north rect - (of_int y + 1) * ht,
                  east = (of_int x + 1) * w + west rect, north = north rect - of_int y * ht\<rparr>"
  shows "Rectangle_contains rect (Rectangle_center T)
       \<and> standardTileXY rect xTiles yTiles (Rectangle_center T) = \<lparr>c2_x = x, c2_y = y\<rparr>"
proof -
  have W: "Rectangle_width rect = east rect - west rect" and Wpos: "0 < Rectangle_width rect"
    using rect(1) by (simp_all add: Rectangle_width_def)
  have Hpos: "0 < Rectangle_height rect"
    using rect(2) by (simp add: Rectangle_height_def)
  have nx: "(0::real) < of_int xTiles" and ny: "(0::real) < of_int yTiles"
    using x(1,2) y(1,2) by simp_all
  have wpos: "0 < w" and hpos: "0 < ht"
    using Wpos Hpos nx ny by (simp_all add: w_def ht_def)
  have xr: "0 \<le> (of_int x + 1 / 2) * w" "(of_int x + 1 / 2) * w \<le> Rectangle_width rect"
    unfolding w_def using half_step_le [OF Wpos x(1,2)] by simp_all
  have yr: "0 \<le> (of_int y + 1 / 2) * ht" "(of_int y + 1 / 2) * ht \<le> Rectangle_height rect"
    unfolding ht_def using half_step_le [OF Hpos y(1,2)] by simp_all
  have mid: "(west T + east T) / 2 = west rect + (of_int x + 1 / 2) * w"
    by (simp add: T_def field_simps)
  have Tnowrap: "\<not> east T < west T"
    using wpos by (simp add: T_def field_simps)
  have midle: "west rect + (of_int x + 1 / 2) * w \<le> pi"
    using xr(2) rect(3) by (simp add: W)
  have clon: "longitude (Rectangle_center T) = west rect + (of_int x + 1 / 2) * w"
    using Tnowrap mid midle by (simp add: Rectangle_center_def Let_def)
  have clat: "latitude (Rectangle_center T) = north rect - (of_int y + 1 / 2) * ht"
    by (simp add: Rectangle_center_def Let_def T_def field_simps)
  have inside: "Rectangle_contains rect (Rectangle_center T)"
    using rect(1) xr yr by (simp add: Rectangle_contains_def Let_def clon clat W Rectangle_height_def)
  have qx: "(longitude (Rectangle_center T) - west rect) / w = of_int x + 1 / 2"
    using wpos by (simp add: clon)
  have qy: "(north rect - latitude (Rectangle_center T)) / ht = of_int y + 1 / 2"
    using hpos by (simp add: clat)
  have tx: "toInt32 (of_int x + 1 / 2) = x"
    using x by (intro toInt32_half) simp_all
  have ty: "toInt32 (of_int y + 1 / 2) = y"
    using y by (intro toInt32_half) simp_all
  have "standardTileXY rect xTiles yTiles (Rectangle_center T) = \<lparr>c2_x = x, c2_y = y\<rparr>"
    using rect(1) x(2) y(2)
    by (simp add: standardTileXY_def Let_def w_def [symmetric] ht_def [symmetric] qx qy tx ty)
  then show ?thesis using inside by simp
qed

lemma roundtrip_nonwrapping:
  assumes std: "s_tileInfo S = None"
    and rect: "west (s_rectangle S) < east (s_rectangle S)"
      "south (s_rectangle S) < north (s_rectangle S)" "east (s_rectangle S) \<le> pi"
    and gx: "getNumberOfXTilesAtLevel S lvl = Inr xTiles"
    and gy: "getNumberOfYTilesAtLevel S lvl = Inr yTiles"
    and x: "0 \<le> x" "x < xTiles" and y: "0 \<le> y" "y < yTiles"
  shows "\<exists>T. tileXYToRectangle S x y lvl = Inr T
          \<and> positionToTileXY S (Rectangle_center T) lvl None h
              = Inr (Some (length h), h @ [\<lparr>c2_x = x, c2_y = y\<rparr>])"
proof -
  have ex: "xTiles = shiftLeft (s_numberOfLevelZeroTilesX S) lvl"
    and ey: "yTiles = shiftLeft (s_numberOfLevelZeroTilesY S) lvl"
    using gx gy by (simp_all add: getTiles_standard [OF std])
  have bx: "xTiles < 2 ^ 31" and "yTiles < 2 ^ 31"
    unfolding ex ey by (rule shiftLeft_bounds)+
  have nz: "xTiles \<noteq> 0" "yTiles \<noteq> 0" using x y by auto
  define T where "T = \<lparr>west = of_int x * (Rectangle_width (s_rectangle S) / of_int xTiles) + west (s_rectangle S),
          south = north (s_rectangle S) - (of_int y + 1) * (Rectangle_height (s_rectangle S) / of_int yTiles),
          east = (of_int x + 1) * (Rectangle_width (s_rectangle S) / of_int xTiles) + west (s_rectangle S),
          north = north (s_rectangle S) - of_int y * (Rectangle_height (s_rectangle S) / of_int yTiles)\<rparr>"
  have t: "tileXYToRectangle S x y lvl = Inr T"
    using nz unfolding T_def ex ey by (intro tileXYToRectangle_standard [OF std]) simp_all
  have c: "Rectangle_contains (s_rectangle S) (Rectangle_center T)
       \<and> standardTileXY (s_rectangle S) xTiles yTiles (Rectangle_center T) = \<lparr>c2_x = x, c2_y = y\<rparr>"
    unfolding T_def
    using rect x(1,2) bx y(1,2) \<open>yTiles < 2 ^ 31\<close> by (rule standardTileXY_center)
  have "positionToTileXY S (Rectangle_center T) lvl None h
              = Inr (Some (length h), h @ [\<lparr>c2_x = x, c2_y = y\<rparr>])"
    using c by (simp add: standard_positionToTileXY [OF std] ex [symmetric] ey [symmetric])
  then show ?thesis using t by blast
qed

text \<open>
  In particular the round trip holds for the default scheme (the full sphere, 2 by 1
  root tiles) at the levels 0 to 6.
\<close>

lemma roundtrip_default_scheme:
  assumes lvl: "0 \<le> lvl" "lvl \<le> 6"
    and x: "0 \<le> x" "x < 2 * 2 ^ nat lvl" and y: "0 \<le> y" "y < 2 ^ nat lvl"
  shows "\<exists>T. tileXYToRectangle (GeographicTilingScheme None) x y lvl = Inr T
          \<and> positionToTileXY (GeographicTilingScheme None) (Rectangle_center T) lvl None h
              = Inr (Some (length h), h @ [\<lparr>c2_x = x, c2_y = y\<rparr>])"
proof -
  have "nat lvl \<le> 6" using lvl by simp
  then have p: "(2::int) ^ nat lvl \<le> 2 ^ 6" by (intro power_increasing) simp_all
  have lo2: "- (2 ^ 31) \<le> 2 * (2::int) ^ nat lvl"
  proof -
    have "- (2 ^ 31) \<le> (0::int)" by simp
    also have "0 \<le> 2 * (2::int) ^ nat lvl" by simp
    finally show ?thesis .
  qed
  have lo1: "- (2 ^ 31) \<le> 1 * (2::int) ^ nat lvl"
  proof -
    have "- (2 ^ 31) \<le> (0::int)" by simp
    also have "0 \<le> 1 * (2::int) ^ nat lvl" by simp
    finally show ?thesis .
  qed
  have sx: "shiftLeft 2 lvl = 2 * 2 ^ nat lvl"
  proof (rule shiftLeft_exact)
    show "0 \<le> lvl" "lvl < 32" using lvl by simp_all
    show "- (2 ^ 31) \<le> 2 * (2::int) ^ nat lvl" by (rule lo2)
    show "2 * (2::int) ^ nat lvl < 2 ^ 31" using p by simp
  qed
  have sy: "shiftLeft 1 lvl = 1 * 2 ^ nat lvl"
  proof (rule shiftLeft_exact)
    show "0 \<le> lvl" "lvl < 32" using lvl by simp_all
    show "- (2 ^ 31) \<le> 1 * (2::int) ^ nat lvl" by (rule lo1)
    show "1 * (2::int) ^ nat lvl < 2 ^ 31" using p by simp
  qed
  have gx: "getNumberOfXTilesAtLevel (GeographicTilingScheme None) lvl = Inr (2 * 2 ^ nat lvl)"
    by (simp add: getTiles_standard [OF default_fields(1)] default_fields sx)
  have gy: "getNumberOfYTilesAtLevel (GeographicTilingScheme None) lvl = Inr (2 ^ nat lvl)"
    using sy by (simp add: getTiles_standard [OF default_fields(1)] default_fields)
  show ?thesis
    using default_fields(1) _ _ _ gx gy x y
    by (rule roundtrip_nonwrapping)
       (simp_all add: default_fields Rectangle_MAX_VALUE_def)
qed

subsection \<open>The output pair\<close>

text \<open>
  In standard mode a supplied pair is written and returned, and a pair is allocated only
  when none is supplied. In matrix mode the result does not depend on the \<open>result\<close>
  argument: a new pair is allocated every time.
\<close>

lemma standard_mode_writes_result:
  assumes "s_tileInfo S = None" "Rectangle_contains (s_rectangle S) position"
  shows "\<exists>c. positionToTileXY S position lvl (Some a) h = Inr (Some a, h[a := c])
           \<and> positionToTileXY S position lvl None h = Inr (Some (length h), h @ [c])"
  by (simp add: standard_positionToTileXY [OF assms])

lemma matrix_positionToTileXY_ignores_result:
  assumes "s_tileInfo S = Some ti"
  shows "positionToTileXY S position lvl (Some a) h = positionToTileXY S position lvl None h"
  using assms by (simp add: positionToTileXY_def Let_def)

text \<open>
  C3. The claim: in both modes, a pair supplied to \<open>positionToTileXY\<close> is written and
  returned. The source does so in standard mode only. In matrix mode, for the example
  matrix, the position \<open>(0, 0)\<close>, level 0 and the supplied pair at address 0 holding
  \<open>(7, 7)\<close>, the function returns a new pair at address 1 holding the tile \<open>(1, 0)\<close> and
  leaves the supplied pair as it was.
\<close>

theorem C3_matrix_mode_ignores_result:
  "s_tileInfo matrix_scheme \<noteq> None
   \<and> Rectangle_contains (s_rectangle matrix_scheme) \<lparr>longitude = 0, latitude = 0\<rparr>
   \<and> positionToTileXY matrix_scheme \<lparr>longitude = 0, latitude = 0\<rparr> 0 (Some 0)
         [\<lparr>c2_x = 7, c2_y = 7\<rparr>]
       = Inr (Some 1, [\<lparr>c2_x = 7, c2_y = 7\<rparr>, \<lparr>c2_x = 1, c2_y = 0\<rparr>])"
proof -
  have c: "Rectangle_contains (s_rectangle matrix_scheme) \<lparr>longitude = 0, latitude = 0\<rparr>"
    by (simp add: matrix_scheme_fields Rectangle_contains_def Rectangle_fromDegrees_def
        toRadians_def)
  have r: "currentResolution example_tileInfo 0 = Inr 0.703125"
    by (simp add: currentResolution_def currentMatrix_def example_tileInfo_def)
  have m: "matrixTileXY example_tileInfo (45 / 64) \<lparr>longitude = 0, latitude = 0\<rparr>
             = \<lparr>c2_x = 1, c2_y = 0\<rparr>"
    by (simp add: matrixTileXY_def example_tileInfo_def toDegrees_def Math_floor_def)
  have f: "rows example_tileInfo = 256" "cols example_tileInfo = 256"
    by (simp_all add: example_tileInfo_def)
  show ?thesis
    using c by (simp add: positionToTileXY_def matrix_scheme_fields(1) r m f)
qed

subsection \<open>A root rectangle across the antimeridian\<close>

text \<open>
  When the root rectangle wraps, the x coordinate is computed from the longitude plus
  \<open>2\<pi>\<close>, whatever the longitude is.
\<close>

lemma standardTileXY_wrapping_x:
  assumes "east rect < west rect"
  shows "c2_x (standardTileXY rect xTiles yTiles position) =
     (let t = toInt32 (((longitude position + TWO_PI) - west rect)
                        / (Rectangle_width rect / of_int xTiles))
      in if xTiles \<le> t then xTiles - 1 else t)"
  using assms by (simp add: standardTileXY_def Let_def)



text \<open>
  C8. The claim: in standard mode the centre of the tile \<open>(x, y)\<close> maps back to
  \<open>(x, y)\<close>. The source adds \<open>2\<pi>\<close> to every longitude when the root rectangle wraps,
  also to one that is already east of the west bound. For the root rectangle from 170
  to -170 degrees, at level 0 (2 by 1 tiles), the tile \<open>(0, 0)\<close> spans 170 to 180
  degrees, its centre is at 175 degrees, and \<open>positionToTileXY\<close> maps the centre to the
  tile \<open>(1, 0)\<close>.
\<close>

theorem C8_roundtrip_fails:
  "getNumberOfXTilesAtLevel antimeridian_scheme 0 = Inr 2
   \<and> getNumberOfYTilesAtLevel antimeridian_scheme 0 = Inr 1
   \<and> tileXYToRectangle antimeridian_scheme 0 0 0 =
       Inr \<lparr>west = toRadians 170, south = toRadians (- 90),
            east = toRadians 180, north = toRadians 90\<rparr>
   \<and> Rectangle_center \<lparr>west = toRadians 170, south = toRadians (- 90),
            east = toRadians 180, north = toRadians 90\<rparr>
       = \<lparr>longitude = toRadians 175, latitude = 0\<rparr>
   \<and> positionToTileXY antimeridian_scheme \<lparr>longitude = toRadians 175, latitude = 0\<rparr> 0 None []
       = Inr (Some 0, [\<lparr>c2_x = 1, c2_y = 0\<rparr>])"
proof -
  have gx: "getNumberOfXTilesAtLevel antimeridian_scheme 0 = Inr 2"
    and gy: "getNumberOfYTilesAtLevel antimeridian_scheme 0 = Inr 1"
    by (simp_all add: getNumberOfXTilesAtLevel_def getNumberOfYTilesAtLevel_def
        antimeridian_scheme_fields shiftLeft_0)
  have t: "tileXYToRectangle antimeridian_scheme 0 0 0 =
       Inr \<lparr>west = toRadians 170, south = toRadians (- 90),
            east = toRadians 180, north = toRadians 90\<rparr>"
    by (simp add: tileXYToRectangle_def gx gy antimeridian_scheme_fields Rectangle_fromDegrees_def
        Rectangle_width_def Rectangle_height_def toRadians_def TWO_PI_def)
  have c: "Rectangle_center \<lparr>west = toRadians 170, south = toRadians (- 90),
            east = toRadians 180, north = toRadians 90\<rparr>
       = \<lparr>longitude = toRadians 175, latitude = 0\<rparr>"
    by (simp add: Rectangle_center_def toRadians_def TWO_PI_def Let_def)
  have i: "Rectangle_contains (s_rectangle antimeridian_scheme)
             \<lparr>longitude = toRadians 175, latitude = 0\<rparr>"
    by (simp add: antimeridian_scheme_fields Rectangle_contains_def Rectangle_fromDegrees_def
        toRadians_def TWO_PI_def)
  have s: "standardTileXY (Rectangle_fromDegrees 170 (- 90) (- 170) 90) 2 1
             \<lparr>longitude = toRadians 175, latitude = 0\<rparr> = \<lparr>c2_x = 1, c2_y = 0\<rparr>"
    apply (simp add: standardTileXY_def Rectangle_fromDegrees_def Rectangle_width_def
        Rectangle_height_def toRadians_def TWO_PI_def Let_def)
    apply (simp add: toInt32_def trunc_toward_zero_def)
    done
  have p: "positionToTileXY antimeridian_scheme \<lparr>longitude = toRadians 175, latitude = 0\<rparr> 0 None []
       = Inr (Some 0, [\<lparr>c2_x = 1, c2_y = 0\<rparr>])"
    by (simp add: standard_positionToTileXY [OF antimeridian_scheme_fields(1) i]
        antimeridian_scheme_fields shiftLeft_0 s)
  show ?thesis using gx gy t c p by simp
qed

text \<open>
  C10. The claim: in standard mode the indices of a contained position are in range.
  For the same wrapping root rectangle at level 26 (\<open>2^27\<close> by \<open>2^26\<close> tiles), the
  position at 176 degrees is contained, the quotient after the added \<open>2\<pi>\<close> is
  \<open>2456184422.4\<close>, beyond \<open>2^31\<close>, and \<open>| 0\<close> wraps it to a negative x coordinate
  that the clamp does not catch.
\<close>

theorem C10_index_out_of_range:
  "Rectangle_contains (s_rectangle antimeridian_scheme) \<lparr>longitude = toRadians 176, latitude = 0\<rparr>
   \<and> getNumberOfXTilesAtLevel antimeridian_scheme 26 = Inr 134217728
   \<and> getNumberOfYTilesAtLevel antimeridian_scheme 26 = Inr 67108864
   \<and> positionToTileXY antimeridian_scheme \<lparr>longitude = toRadians 176, latitude = 0\<rparr> 26 None []
       = Inr (Some 0, [\<lparr>c2_x = - 1838782874, c2_y = 33554432\<rparr>])"
proof -
  have gx: "getNumberOfXTilesAtLevel antimeridian_scheme 26 = Inr 134217728"
    and gy: "getNumberOfYTilesAtLevel antimeridian_scheme 26 = Inr 67108864"
    by (simp_all add: getNumberOfXTilesAtLevel_def getNumberOfYTilesAtLevel_def
        antimeridian_scheme_fields shiftLeft_26)
  have i: "Rectangle_contains (s_rectangle antimeridian_scheme)
             \<lparr>longitude = toRadians 176, latitude = 0\<rparr>"
    by (simp add: antimeridian_scheme_fields Rectangle_contains_def Rectangle_fromDegrees_def
        toRadians_def TWO_PI_def)
  have s: "standardTileXY (Rectangle_fromDegrees 170 (- 90) (- 170) 90) 134217728 67108864
             \<lparr>longitude = toRadians 176, latitude = 0\<rparr>
           = \<lparr>c2_x = - 1838782874, c2_y = 33554432\<rparr>"
    apply (simp add: standardTileXY_def Rectangle_fromDegrees_def Rectangle_width_def
        Rectangle_height_def toRadians_def TWO_PI_def Let_def)
    apply (simp add: toInt32_def trunc_toward_zero_def)
    done
  have p: "positionToTileXY antimeridian_scheme \<lparr>longitude = toRadians 176, latitude = 0\<rparr> 26 None []
       = Inr (Some 0, [\<lparr>c2_x = - 1838782874, c2_y = 33554432\<rparr>])"
    by (simp add: standard_positionToTileXY [OF antimeridian_scheme_fields(1) i]
        antimeridian_scheme_fields shiftLeft_26 s)
  show ?thesis using gx gy i p by simp
qed

end
